theory Spec2Isabelle
  imports Complex_Main "HOL-Library.Log_Nat"
begin

section \<open>SA-MP server monitor: query client, probe, transition handler, loop\<close>

text \<open>
  The development embeds \<^verbatim>\<open>samp_server_monitor.py\<close>. Dictionaries with a fixed set
  of keys are records; a key that a dictionary may lack is an \<open>option\<close> field, so that
  every \<^verbatim>\<open>d.get(k, default)\<close> of the source is a case distinction with the source's
  default. Exceptions are values of \<open>exn\<close>, and a function that may raise returns
  \<open>exn + 'a\<close>; one that may raise after it has had an effect returns the effect
  together with an \<open>exn option\<close>. The network, the clock and the elapsed time of a
  round trip are inputs of the program and are passed as an explicit environment.
\<close>

subsection \<open>Exceptions and the environment\<close>

text \<open>
  \<^verbatim>\<open>SAMPQueryException\<close> carries a formatted message; the two formats of
  \<^verbatim>\<open>_send_query\<close> are kept apart by a constructor each, with the values that are
  interpolated into the text.
\<close>

datatype query_msg =
    QueryTimeout string int
  | QueryFailed string

datatype exn =
    SAMPQueryException query_msg
  | ZeroDivisionError
  | OverflowError

text \<open>
  What one UDP round trip can do: a datagram comes back (decoded to a string), the
  socket times out, or any other exception is raised inside the \<^verbatim>\<open>try\<close> block.
\<close>

datatype net_outcome =
    Reply string
  | SocketTimeout
  | SocketError string

record env =
  net :: "string \<Rightarrow> int \<Rightarrow> string \<Rightarrow> net_outcome"
  elapsed_ms :: int
  utcnow :: string

subsection \<open>SAMPServerQuery\<close>

text \<open>
  \<^verbatim>\<open>_send_query\<close> converts every exception of its \<^verbatim>\<open>try\<close> block into a
  \<^verbatim>\<open>SAMPQueryException\<close>, so that is the only exception that leaves it.
  \<^verbatim>\<open>recvfrom(4096)\<close> returns at most 4096 bytes of the datagram, and decoding
  with \<^verbatim>\<open>errors='ignore'\<close> yields at most one character for each of them.
\<close>

definition send_query :: "env \<Rightarrow> string \<Rightarrow> int \<Rightarrow> string \<Rightarrow> exn + string" where
  "send_query e host port opcode =
     (case net e host port opcode of
        Reply response \<Rightarrow> Inr (take 4096 response)
      | SocketTimeout \<Rightarrow> Inl (SAMPQueryException (QueryTimeout host port))
      | SocketError msg \<Rightarrow> Inl (SAMPQueryException (QueryFailed msg)))"

text \<open>
  The three query methods catch \<^verbatim>\<open>SAMPQueryException\<close> and return \<^verbatim>\<open>None\<close>; any
  other exception would pass through them.
\<close>

record server_info =
  info_host :: string
  info_port :: int
  info_timestamp :: string
  info_online :: bool

definition get_server_info :: "env \<Rightarrow> string \<Rightarrow> int \<Rightarrow> exn + server_info option" where
  "get_server_info e host port =
     (case send_query e host port ''serverinfo'' of
        Inl (SAMPQueryException _) \<Rightarrow> Inr None
      | Inl other \<Rightarrow> Inl other
      | Inr response \<Rightarrow>
          if response = [] then Inr None
          else Inr (Some \<lparr>info_host = host, info_port = port,
                           info_timestamp = utcnow e, info_online = True\<rparr>))"

text \<open>Python's \<^verbatim>\<open>str.split(sep)\<close> for a one-character separator.\<close>

fun split_on :: "char \<Rightarrow> string \<Rightarrow> string list" where
  "split_on sep [] = [[]]"
| "split_on sep (c # cs) =
     (if c = sep then [] # split_on sep cs
      else (case split_on sep cs of
              [] \<Rightarrow> [[c]]
            | part # parts \<Rightarrow> (c # part) # parts))"

definition get_player_count :: "env \<Rightarrow> string \<Rightarrow> int \<Rightarrow> exn + int option" where
  "get_player_count e host port =
     (case send_query e host port ''players'' of
        Inl (SAMPQueryException _) \<Rightarrow> Inr None
      | Inl other \<Rightarrow> Inl other
      | Inr response \<Rightarrow>
          if response = [] then Inr None
          else Inr (Some (int (length (split_on (CHR 0x0A) response)) - 1)))"

definition ping :: "env \<Rightarrow> string \<Rightarrow> int \<Rightarrow> exn + int option" where
  "ping e host port =
     (case send_query e host port ''ping'' of
        Inl (SAMPQueryException _) \<Rightarrow> Inr None
      | Inl other \<Rightarrow> Inl other
      | Inr _ \<Rightarrow> Inr (Some (elapsed_ms e)))"

subsection \<open>Configuration and status dictionaries\<close>

record server_config =
  cfg_name :: string
  cfg_host :: string
  cfg_port :: int
  cfg_max_players :: "int option"
  alert_on_offline :: bool
  alert_on_high_load :: bool
  high_load_threshold :: rat

text \<open>
  The status dictionary. \<^verbatim>\<open>name\<close>, \<^verbatim>\<open>host\<close>, \<^verbatim>\<open>port\<close> and
  \<^verbatim>\<open>timestamp\<close> are set on both paths of \<^verbatim>\<open>check_server\<close>; the other keys exist
  on one path only, and the handler reads them with \<^verbatim>\<open>get\<close>. The value of
  \<^verbatim>\<open>ping\<close> may be \<^verbatim>\<open>None\<close>, which no reader distinguishes from a missing key.
\<close>

record status =
  st_name :: string
  st_host :: string
  st_port :: int
  st_online :: "bool option"
  st_ping :: "int option"
  st_player_count :: "int option"
  st_max_players :: "int option"
  st_error :: "query_msg option"
  st_timestamp :: string

subsection \<open>ServerMonitor.check\_server\<close>

text \<open>
  The body of the \<^verbatim>\<open>try\<close> block: the three queries in the source's order, each
  leaving the block if it raises, then the dictionary literal.
  \<^verbatim>\<open>player_count or 0\<close> replaces \<^verbatim>\<open>None\<close> by \<open>0\<close>.
\<close>

definition check_server_try :: "env \<Rightarrow> server_config \<Rightarrow> exn + status" where
  "check_server_try e server_config =
     (let host = cfg_host server_config;
          port = cfg_port server_config;
          name = cfg_name server_config
      in case ping e host port of
           Inl x \<Rightarrow> Inl x
         | Inr p \<Rightarrow>
             (case get_player_count e host port of
                Inl x \<Rightarrow> Inl x
              | Inr player_count \<Rightarrow>
                  (case get_server_info e host port of
                     Inl x \<Rightarrow> Inl x
                   | Inr info \<Rightarrow>
                       Inr \<lparr>st_name = name, st_host = host, st_port = port,
                             st_online = Some True,
                             st_ping = p,
                             st_player_count =
                               Some (case player_count of None \<Rightarrow> 0 | Some n \<Rightarrow> n),
                             st_max_players =
                               Some (case cfg_max_players server_config of
                                       None \<Rightarrow> 100 | Some n \<Rightarrow> n),
                             st_error = None,
                             st_timestamp = utcnow e\<rparr>)))"

definition check_server :: "env \<Rightarrow> server_config \<Rightarrow> exn + status" where
  "check_server e server_config =
     (case check_server_try e server_config of
        Inr st \<Rightarrow> Inr st
      | Inl (SAMPQueryException msg) \<Rightarrow>
          Inr \<lparr>st_name = cfg_name server_config, st_host = cfg_host server_config,
                st_port = cfg_port server_config,
                st_online = Some False,
                st_ping = None, st_player_count = None, st_max_players = None,
                st_error = Some msg,
                st_timestamp = utcnow e\<rparr>
      | Inl other \<Rightarrow> Inl other)"

subsection \<open>ServerMonitor.handle\_server\_status\_change\<close>

text \<open>
  The handler's only effect is the sequence of \<^verbatim>\<open>notifier.send_alert\<close> calls it
  makes. Each of its three call sites is a constructor, carrying the values that the
  call interpolates into title, description and fields: the offline alert (colour
  \<^verbatim>\<open>0xFF0000\<close>) the server name and the new status's host and port, the online
  alert (\<^verbatim>\<open>0x00FF00\<close>) the server name, the high-load alert (\<^verbatim>\<open>0xFFA500\<close>)
  the server name, player count, maximum and load. The result of \<^verbatim>\<open>send_alert\<close>
  is ignored by the handler.
\<close>

datatype alert =
    is_WentOffline: WentOffline string string int
  | is_WentOnline: WentOnline string
  | is_HighLoad: HighLoad string int int rat

fun color :: "alert \<Rightarrow> nat" where
  "color (WentOffline _ _ _) = 0xFF0000"
| "color (WentOnline _) = 0x00FF00"
| "color (HighLoad _ _ _ _) = 0xFFA500"

text \<open>\<^verbatim>\<open>d.get(key, default)\<close> on an optional key.\<close>

definition get_or :: "'a option \<Rightarrow> 'a \<Rightarrow> 'a" where
  "get_or v dflt = (case v of None \<Rightarrow> dflt | Some x \<Rightarrow> x)"

subsection \<open>True division of integers\<close>

text \<open>
  Python's \<^verbatim>\<open>a / b\<close> on integers raises \<^verbatim>\<open>ZeroDivisionError\<close> on a zero
  divisor; otherwise it is the double nearest to the exact quotient, ties going to the
  even mantissa, and \<^verbatim>\<open>OverflowError\<close> when that double would not be finite.
  A double is modelled by the rational it denotes (so \<open>-0.0\<close> is \<open>0\<close>, which no
  comparison tells apart).

  \<open>pow2 e\<close> is \<open>2\<close> to an integer power, \<open>round_half_even n d\<close> the integer
  nearest to \<open>n / d\<close> for a positive \<open>d\<close>, and \<open>exponent a b\<close> the binary
  exponent of \<open>a / b\<close> for positive \<open>a\<close> and \<open>b\<close>, found from the bit lengths of
  the two integers. The mantissa has 53 bits; below \<open>2\<close> to the \<open>-1022\<close> the
  spacing of the doubles stays that of the smallest binade.
\<close>

definition pow2 :: "int \<Rightarrow> rat" where
  "pow2 e = (if 0 \<le> e then 2 ^ nat e else 1 / 2 ^ nat (- e))"

definition round_half_even :: "int \<Rightarrow> int \<Rightarrow> int" where
  "round_half_even n d =
     (let f = n div d; r = n mod d
      in if 2 * r < d then f
         else if d < 2 * r then f + 1
         else if even f then f else f + 1)"

definition exponent :: "int \<Rightarrow> int \<Rightarrow> int" where
  "exponent a b =
     (let d = bitlen a - bitlen b
      in if pow2 d \<le> of_int a / of_int b then d else d - 1)"

definition nearest_double :: "int \<Rightarrow> int \<Rightarrow> rat" where
  "nearest_double a b =
     (let s = max (exponent a b) (- 1022) - 52;
          m = (if 0 \<le> s then round_half_even a (b * 2 ^ nat s)
               else round_half_even (a * 2 ^ nat (- s)) b)
      in of_int m * pow2 s)"

definition true_div :: "int \<Rightarrow> int \<Rightarrow> exn + rat" where
  "true_div a b =
     (if b = 0 then Inl ZeroDivisionError
      else if a = 0 then Inr 0
      else (let d = nearest_double \<bar>a\<bar> \<bar>b\<bar>
            in if pow2 1024 \<le> d then Inl OverflowError
               else Inr (if (a < 0) \<noteq> (b < 0) then - d else d)))"

text \<open>
  The value of the literal \<^verbatim>\<open>0.8\<close>, the double nearest to \<open>4 / 5\<close>; it is
  \<open>7205759403792794\<close> divided by \<open>2\<close> to the \<open>53\<close> and lies just above
  \<open>4 / 5\<close>.
\<close>

definition threshold :: rat where
  "threshold = 3602879701896397 / 4503599627370496"

text \<open>
  The expression
  \<^verbatim>\<open>s.get('player_count', 0) / s.get('max_players', 100) if s.get('max_players', 100) > 0 else 0\<close>,
  which the handler evaluates once on the new and once on the old status.
\<close>

definition load :: "status \<Rightarrow> exn + rat" where
  "load s =
     (let max_players = get_or (st_max_players s) 100;
          player_count = get_or (st_player_count s) 0
      in if max_players > 0 then true_div player_count max_players else Inr 0)"

text \<open>
  The handler returns the alerts it sent, in order, together with the exception that
  left it, if any: an alert of the \<^verbatim>\<open>if\<close>/\<^verbatim>\<open>elif\<close> pair has been sent by the
  time a division of the load check raises.
\<close>

definition handle_server_status_change ::
    "string \<Rightarrow> status \<Rightarrow> status option \<Rightarrow> alert list \<times> exn option" where
  "handle_server_status_change server_name new_status old_status =
     (case old_status of
        None \<Rightarrow> ([], None)
      | Some old \<Rightarrow>
          (let transition =
                 (if get_or (st_online old) True \<and> \<not> get_or (st_online new_status) False
                  then [WentOffline server_name (st_host new_status) (st_port new_status)]
                  else if \<not> get_or (st_online old) False \<and> get_or (st_online new_status) True
                  then [WentOnline server_name]
                  else [])
           in if get_or (st_online new_status) False then
                (let max_players = get_or (st_max_players new_status) 100;
                     player_count = get_or (st_player_count new_status) 0
                 in case load new_status of
                      Inl e \<Rightarrow> (transition, Some e)
                    | Inr l \<Rightarrow>
                        (case load old of
                           Inl e \<Rightarrow> (transition, Some e)
                         | Inr old_load \<Rightarrow>
                             (transition @
                              (if l \<ge> threshold \<and> old_load < threshold
                               then [HighLoad server_name player_count max_players l]
                               else []), None)))
              else (transition, None)))"

subsection \<open>ServerMonitor: state, one cycle, the loop\<close>

text \<open>
  The object's mutable fields, and two observations of its effects: \<open>sent\<close> lists the
  alerts handed to the notifier and \<open>probes\<close> counts the calls of
  \<^verbatim>\<open>check_server\<close>. The environment of the \<open>n\<close>-th probe is \<open>world n\<close>.
\<close>

record monitor =
  monitoring :: bool
  server_states :: "string \<rightharpoonup> status"
  sent :: "alert list"
  probes :: nat

record config =
  discord_webhook :: string
  check_interval :: "int option"
  servers :: "server_config list"

text \<open>
  The body of the \<^verbatim>\<open>for\<close> loop of \<^verbatim>\<open>monitor_loop\<close>, with the exception that
  left it, if any. The new status is stored only when the handler has returned.
\<close>

definition process_server ::
    "(nat \<Rightarrow> env) \<Rightarrow> server_config \<Rightarrow> monitor \<Rightarrow> monitor \<times> exn option" where
  "process_server world server_config m =
     (let server_name = cfg_name server_config
      in case check_server (world (probes m)) server_config of
           Inl e \<Rightarrow> (m\<lparr>probes := Suc (probes m)\<rparr>, Some e)
         | Inr new_status \<Rightarrow>
             (let old_status = server_states m server_name
              in case handle_server_status_change server_name new_status old_status of
                   (alerts, Some e) \<Rightarrow>
                     (m\<lparr>sent := sent m @ alerts, probes := Suc (probes m)\<rparr>, Some e)
                 | (alerts, None) \<Rightarrow>
                     (m\<lparr>server_states := (server_states m)(server_name \<mapsto> new_status),
                        sent := sent m @ alerts,
                        probes := Suc (probes m)\<rparr>, None)))"

fun run_servers :: "(nat \<Rightarrow> env) \<Rightarrow> server_config list \<Rightarrow> monitor \<Rightarrow> monitor \<times> exn option" where
  "run_servers world [] m = (m, None)"
| "run_servers world (c # cs) m =
     (case process_server world c m of
        (m', Some e) \<Rightarrow> (m', Some e)
      | (m', None) \<Rightarrow> run_servers world cs m')"

text \<open>
  The thread that runs \<^verbatim>\<open>monitor_loop\<close>, one step per statement of the loop: the
  assignment before the \<^verbatim>\<open>while\<close>, the test of the flag followed by one pass over
  the servers, and the sleep. \<^verbatim>\<open>time.sleep\<close> raises on a negative interval; that and
  every other exception of the pass is caught and followed by a sleep of ten seconds.
  \<open>Exited\<close> is the normal return of \<^verbatim>\<open>monitor_loop\<close>.
\<close>

datatype pc = Entry | AtWhile | Sleeping int | Exited

fun loop_step :: "(nat \<Rightarrow> env) \<Rightarrow> config \<Rightarrow> pc \<times> monitor \<Rightarrow> pc \<times> monitor" where
  "loop_step world cfg (Entry, m) = (AtWhile, m\<lparr>monitoring := True\<rparr>)"
| "loop_step world cfg (AtWhile, m) =
     (if monitoring m then
        (case run_servers world (servers cfg) m of
           (m', Some e) \<Rightarrow> (Sleeping 10, m')
         | (m', None) \<Rightarrow>
             (let interval = get_or (check_interval cfg) 60
              in if interval < 0 then (Sleeping 10, m') else (Sleeping interval, m')))
      else (Exited, m))"
| "loop_step world cfg (Sleeping d, m) = (AtWhile, m)"
| "loop_step world cfg (Exited, m) = (Exited, m)"

definition stop_monitoring :: "monitor \<Rightarrow> monitor" where
  "stop_monitoring m = m\<lparr>monitoring := False\<rparr>"

text \<open>
  \<^verbatim>\<open>start_monitoring\<close> creates a thread with target \<^verbatim>\<open>monitor_loop\<close> and starts
  it. The process is the monitor object together with the threads started so far, each
  at its own place in the loop; a scheduling step lets one thread take one step.
\<close>

record system =
  mon :: monitor
  threads :: "pc list"

definition start_monitoring :: "system \<Rightarrow> system" where
  "start_monitoring s = s\<lparr>threads := threads s @ [Entry]\<rparr>"

definition thread_step :: "(nat \<Rightarrow> env) \<Rightarrow> config \<Rightarrow> nat \<Rightarrow> system \<Rightarrow> system" where
  "thread_step world cfg i s =
     (if i < length (threads s) then
        (case loop_step world cfg (threads s ! i, mon s) of
           (p, m) \<Rightarrow> s\<lparr>mon := m, threads := (threads s)[i := p]\<rparr>)
      else s)"

subsection \<open>Concrete inputs\<close>

text \<open>An environment in which every datagram is lost, and the default server entry.\<close>

definition dead_env :: env where
  "dead_env = \<lparr>net = (\<lambda>host port opcode. SocketTimeout), elapsed_ms = 5000,
               utcnow = ''2024-01-01T00:00:00''\<rparr>"

definition main_server :: server_config where
  "main_server = \<lparr>cfg_name = ''Main Server'', cfg_host = ''127.0.0.1'', cfg_port = 7777,
                  cfg_max_players = Some 500, alert_on_offline = True,
                  alert_on_high_load = True, high_load_threshold = 4 / 5\<rparr>"

text \<open>
  Status dictionaries of the two shapes that \<^verbatim>\<open>check_server\<close> builds, for the
  default server entry: the one of the \<^verbatim>\<open>try\<close> block with a given player count,
  and the one of the \<^verbatim>\<open>except\<close> block.
\<close>

definition online_snapshot :: "int \<Rightarrow> status" where
  "online_snapshot n =
     \<lparr>st_name = ''Main Server'', st_host = ''127.0.0.1'', st_port = 7777,
      st_online = Some True, st_ping = Some 20, st_player_count = Some n,
      st_max_players = Some 500, st_error = None,
      st_timestamp = ''2024-01-01T00:00:00''\<rparr>"

definition offline_snapshot :: status where
  "offline_snapshot =
     \<lparr>st_name = ''Main Server'', st_host = ''127.0.0.1'', st_port = 7777,
      st_online = Some False, st_ping = None, st_player_count = None,
      st_max_players = None, st_error = Some (QueryTimeout ''127.0.0.1'' 7777),
      st_timestamp = ''2024-01-01T00:01:00''\<rparr>"

text \<open>
  A world in which every probe finds the network dead, the built-in default
  configuration, the monitor as \<^verbatim>\<open>__init__\<close> leaves it, and the process before and
  after the first thread has been started and has entered the loop.
\<close>

definition quiet_world :: "nat \<Rightarrow> env" where
  "quiet_world n = dead_env"

definition default_config :: config where
  "default_config = \<lparr>discord_webhook = ''YOUR_WEBHOOK_URL_HERE'', check_interval = Some 60,
                     servers = [main_server]\<rparr>"

definition fresh_monitor :: monitor where
  "fresh_monitor = \<lparr>monitoring = False, server_states = Map.empty, sent = [], probes = 0\<rparr>"

definition idle_system :: system where
  "idle_system = \<lparr>mon = fresh_monitor, threads = []\<rparr>"

definition running_system :: system where
  "running_system = thread_step quiet_world default_config 0 (start_monitoring idle_system)"

text \<open>
  An environment in which the server answers every query and the player list has nine
  lines, a ten-slot server whose configured threshold is \<open>19 / 20\<close> and whose alert
  toggles are off, and a monitor that saw the server at half load in the previous cycle.
\<close>

definition player_list :: string where
  "player_list = [CHR ''a'', CHR 0x0A, CHR ''b'', CHR 0x0A, CHR ''c'', CHR 0x0A, CHR ''d'', CHR 0x0A, CHR ''e'', CHR 0x0A, CHR ''f'', CHR 0x0A, CHR ''g'', CHR 0x0A, CHR ''h'', CHR 0x0A, CHR ''i'', CHR 0x0A]"

definition busy_env :: env where
  "busy_env = \<lparr>net = (\<lambda>host port opcode.
                         if opcode = ''players'' then Reply player_list else Reply ''SAMP''),
               elapsed_ms = 20, utcnow = ''2024-01-01T00:02:00''\<rparr>"

definition busy_world :: "nat \<Rightarrow> env" where
  "busy_world n = busy_env"

definition small_server :: server_config where
  "small_server = \<lparr>cfg_name = ''Main Server'', cfg_host = ''127.0.0.1'', cfg_port = 7777,
                   cfg_max_players = Some 10, alert_on_offline = False,
                   alert_on_high_load = False, high_load_threshold = 19 / 20\<rparr>"

definition seen_monitor :: monitor where
  "seen_monitor = \<lparr>monitoring = True,
                   server_states = [''Main Server'' \<mapsto> online_snapshot 250],
                   sent = [], probes = 1\<rparr>"

text \<open>
  A status dictionary whose \<^verbatim>\<open>max_players\<close> is zero; one whose player count
  divided by its \<^verbatim>\<open>max_players\<close> is beyond the range of a double; and two that
  say offline but carry a player count.
\<close>

definition zero_slots :: status where
  "zero_slots = (online_snapshot 7)\<lparr>st_max_players := Some 0\<rparr>"

definition too_many :: int where
  "too_many = 2 ^ 1024"

definition crowded :: status where
  "crowded = (online_snapshot too_many)\<lparr>st_max_players := Some 1\<rparr>"

definition offline_with_count :: status where
  "offline_with_count = (online_snapshot 450)\<lparr>st_online := Some False\<rparr>"

definition offline_full :: status where
  "offline_full = (online_snapshot 500)\<lparr>st_online := Some False\<rparr>"

text \<open>The double nearest to \<open>9 / 10\<close>, and the status that a probe of a dead network yields.\<close>

definition double_0_9 :: rat where
  "double_0_9 = 8106479329266893 / 9007199254740992"

definition unanswered_snapshot :: status where
  "unanswered_snapshot = (online_snapshot 0)\<lparr>st_ping := None\<rparr>"


section \<open>Properties\<close>

subsection \<open>Nearest doubles\<close>

lemma pow2_powi: "pow2 e = power_int 2 e"
  by (simp add: pow2_def power_int_def inverse_eq_divide power_one_over)

lemma pow2_pos: "0 < pow2 e"
  by (simp add: pow2_powi)

lemma pow2_add: "pow2 (i + j) = pow2 i * pow2 j"
  by (simp add: pow2_powi power_int_add)

lemma pow2_mono: "i \<le> j \<Longrightarrow> pow2 i \<le> pow2 j"
  by (simp add: pow2_powi power_int_increasing)

lemma pow2_nat: "pow2 (int n) = 2 ^ n"
  by (simp add: pow2_def)

lemma pow2_le_cancel: "pow2 i \<le> pow2 j \<Longrightarrow> i \<le> j"
proof (rule ccontr)
  assume le: "pow2 i \<le> pow2 j" and "\<not> i \<le> j"
  then have "j < i" by simp
  then have "pow2 j < pow2 i"
    by (simp add: pow2_powi power_int_strict_increasing)
  with le show False by simp
qed

lemma bitlen_pow2_bounds:
  assumes "0 < a"
  shows "pow2 (bitlen a - 1) \<le> of_int a" and "of_int a < pow2 (bitlen a)"
proof -
  from assms have b: "2 ^ nat (bitlen a - 1) \<le> a" "a < 2 ^ nat (bitlen a)"
    using bitlen_bounds [of a] by simp_all
  from assms have pos: "1 \<le> bitlen a"
    using bitlen_eq_zero_iff [of a] bitlen_nonneg [of a] by linarith
  have "(of_int (2 ^ nat (bitlen a - 1)) :: rat) \<le> of_int a"
    using b(1) by (simp only: of_int_le_iff)
  then show "pow2 (bitlen a - 1) \<le> of_int a"
    using pos by (simp add: pow2_def)
  have "(of_int a :: rat) < of_int (2 ^ nat (bitlen a))"
    using b(2) by (simp only: of_int_less_iff)
  then show "of_int a < pow2 (bitlen a)"
    using pos by (simp add: pow2_def)
qed

lemma exponent_bounds:
  assumes "0 < a" and "0 < b"
  shows "pow2 (exponent a b) \<le> of_int a / of_int b"
    and "of_int a / of_int b < pow2 (exponent a b + 1)"
proof -
  let ?x = "of_int a / of_int b :: rat"
  let ?d = "bitlen a - bitlen b"
  have bpos: "(0::rat) < of_int b" using assms(2) by simp
  have lo: "pow2 (?d - 1) \<le> ?x"
  proof -
    have "pow2 (?d - 1) * of_int b \<le> pow2 (?d - 1) * pow2 (bitlen b)"
      using bitlen_pow2_bounds(2) [OF assms(2)] pow2_pos [of "?d - 1"]
      by (simp add: mult_left_mono less_imp_le)
    also have "\<dots> = pow2 (bitlen a - 1)"
      by (simp flip: pow2_add)
    also have "\<dots> \<le> of_int a"
      by (rule bitlen_pow2_bounds(1) [OF assms(1)])
    finally show ?thesis using bpos by (simp add: pos_le_divide_eq)
  qed
  have hi: "?x < pow2 (?d + 1)"
  proof -
    have "of_int a < pow2 (bitlen a)"
      by (rule bitlen_pow2_bounds(2) [OF assms(1)])
    also have "\<dots> = pow2 (?d + 1) * pow2 (bitlen b - 1)"
      by (simp flip: pow2_add)
    also have "\<dots> \<le> pow2 (?d + 1) * of_int b"
      using bitlen_pow2_bounds(1) [OF assms(2)] pow2_pos [of "?d + 1"]
      by (simp add: mult_left_mono less_imp_le)
    finally show ?thesis using bpos by (simp add: pos_divide_less_eq)
  qed
  show "pow2 (exponent a b) \<le> ?x"
    using lo by (simp add: exponent_def Let_def)
  show "?x < pow2 (exponent a b + 1)"
    using hi by (auto simp add: exponent_def Let_def not_le)
qed

lemma round_half_even_near:
  assumes "0 < d"
  shows "\<bar>of_int (round_half_even n d) - (of_int n / of_int d :: rat)\<bar> \<le> 1 / 2"
proof -
  let ?f = "n div d" and ?r = "n mod d"
  have n: "n = d * ?f + ?r" by simp
  have r: "0 \<le> ?r" "?r < d" using assms by simp_all
  have dpos: "(0::rat) < of_int d" using assms by simp
  have q: "(of_int n / of_int d :: rat) = of_int ?f + of_int ?r / of_int d"
  proof -
    have "(of_int n :: rat) = of_int d * of_int ?f + of_int ?r"
      by (metis n of_int_add of_int_mult)
    then show ?thesis using dpos by (simp add: field_simps)
  qed
  have r0: "(0::rat) \<le> of_int ?r / of_int d" using r(1) dpos by simp
  have r1: "(of_int ?r / of_int d :: rat) < 1" using r(2) dpos by simp
  have half: "2 * ?r < d \<longleftrightarrow> (of_int ?r / of_int d :: rat) < 1 / 2"
  proof -
    have "(of_int ?r / of_int d :: rat) < 1 / 2 \<longleftrightarrow> (of_int (2 * ?r) :: rat) < of_int d"
      using dpos by (simp add: field_simps)
    then show ?thesis by (simp only: of_int_less_iff)
  qed
  have half': "d < 2 * ?r \<longleftrightarrow> 1 / 2 < (of_int ?r / of_int d :: rat)"
  proof -
    have "1 / 2 < (of_int ?r / of_int d :: rat) \<longleftrightarrow> (of_int d :: rat) < of_int (2 * ?r)"
      using dpos by (simp add: field_simps)
    then show ?thesis by (simp only: of_int_less_iff)
  qed
  show ?thesis
    unfolding round_half_even_def Let_def q
    using r0 r1 half half' by (auto simp add: abs_if)
qed

lemma nearest_double_mantissa:
  assumes "0 < a" and "0 < b"
  obtains m where
    "nearest_double a b = of_int m * pow2 (max (exponent a b) (- 1022) - 52)"
    "\<bar>of_int m - of_int a / of_int b / pow2 (max (exponent a b) (- 1022) - 52)\<bar> \<le> 1 / 2"
proof -
  let ?s = "max (exponent a b) (- 1022) - 52"
  have bpos: "(0::rat) < of_int b" using assms(2) by simp
  show thesis
  proof (cases "0 \<le> ?s")
    case True
    let ?m = "round_half_even a (b * 2 ^ nat ?s)"
    have d: "0 < b * 2 ^ nat ?s" using assms(2) by simp
    have pw: "pow2 ?s = 2 ^ nat ?s" using True by (simp add: pow2_def)
    have eq: "(of_int a / of_int (b * 2 ^ nat ?s) :: rat) = of_int a / of_int b / pow2 ?s"
      unfolding pw by simp
    have "\<bar>of_int ?m - of_int a / of_int b / pow2 ?s\<bar> \<le> 1 / 2"
      using round_half_even_near [OF d, of a] unfolding eq .
    moreover have "nearest_double a b = of_int ?m * pow2 ?s"
      using True by (simp add: nearest_double_def Let_def)
    ultimately show ?thesis by (rule that [rotated])
  next
    case False
    let ?m = "round_half_even (a * 2 ^ nat (- ?s)) b"
    have pw: "pow2 ?s = 1 / 2 ^ nat (- ?s)" using False by (simp add: pow2_def)
    have eq: "(of_int (a * 2 ^ nat (- ?s)) / of_int b :: rat) = of_int a / of_int b / pow2 ?s"
      unfolding pw by simp
    have "\<bar>of_int ?m - of_int a / of_int b / pow2 ?s\<bar> \<le> 1 / 2"
      using round_half_even_near [OF assms(2), of "a * 2 ^ nat (- ?s)"] unfolding eq .
    moreover have "nearest_double a b = of_int ?m * pow2 ?s"
      using False by (simp add: nearest_double_def Let_def)
    ultimately show ?thesis by (rule that [rotated])
  qed
qed

lemma nearest_double_nonneg:
  assumes "0 < a" and "0 < b"
  shows "0 \<le> nearest_double a b"
proof -
  let ?s = "max (exponent a b) (- 1022) - 52"
  obtain m where m: "nearest_double a b = of_int m * pow2 ?s"
    and near: "\<bar>of_int m - of_int a / of_int b / pow2 ?s\<bar> \<le> 1 / 2"
    using nearest_double_mantissa [OF assms] by blast
  have "(0::rat) \<le> of_int a / of_int b / pow2 ?s"
    using assms pow2_pos [of ?s] by simp
  with near have "(- 1 :: rat) < of_int m" by linarith
  then have "- 1 < m" by (metis of_int_less_iff of_int_minus of_int_1)
  then have "(0::rat) \<le> of_int m" by simp
  then show ?thesis using m pow2_pos [of ?s] by simp
qed

text \<open>No overflow for quotients not above 4096.\<close>

lemma nearest_double_small:
  assumes "0 < a" and "0 < b" and "a \<le> 4096 * b"
  shows "nearest_double a b < pow2 1024"
proof -
  let ?x = "of_int a / of_int b :: rat"
  let ?e = "exponent a b"
  let ?s = "max ?e (- 1022) - 52"
  obtain m where m: "nearest_double a b = of_int m * pow2 ?s"
    and near: "\<bar>of_int m - ?x / pow2 ?s\<bar> \<le> 1 / 2"
    using nearest_double_mantissa [OF assms(1,2)] by blast
  have bpos: "(0::rat) < of_int b" using assms(2) by simp
  have "(of_int a :: rat) \<le> of_int (4096 * b)" using assms(3) by (simp only: of_int_le_iff)
  then have x: "?x \<le> 4096" using bpos by (simp add: pos_divide_le_eq)
  have "pow2 ?e \<le> ?x" by (rule exponent_bounds(1) [OF assms(1,2)])
  moreover have "pow2 12 = 4096" by (simp add: pow2_def)
  ultimately have "pow2 ?e \<le> pow2 12" using x by simp
  then have "?e \<le> 12" by (rule pow2_le_cancel)
  then have s: "?s \<le> 0" by simp
  have "pow2 ?s \<le> pow2 0" using s by (rule pow2_mono)
  then have p1: "pow2 ?s \<le> 1" by (simp add: pow2_def)
  have "of_int m \<le> ?x / pow2 ?s + 1 / 2" using near by linarith
  then have "of_int m * pow2 ?s \<le> (?x / pow2 ?s + 1 / 2) * pow2 ?s"
    using pow2_pos [of ?s] by (simp add: mult_right_mono)
  also have "\<dots> = ?x + pow2 ?s / 2"
    using pow2_pos [of ?s] by (simp add: field_simps)
  also have "\<dots> \<le> 4096 + 1 / 2" using x p1 by linarith
  also have "\<dots> < pow2 1024" by (simp add: pow2_def)
  finally show ?thesis using m by simp
qed

text \<open>No double lies between \<open>4 / 5\<close> and the double written \<open>0.8\<close>.\<close>

lemma nearest_double_threshold:
  assumes "0 < a" and "0 < b" and "4 / 5 \<le> nearest_double a b"
  shows "threshold \<le> nearest_double a b"
proof -
  let ?x = "of_int a / of_int b :: rat"
  let ?e = "exponent a b"
  let ?s = "max ?e (- 1022) - 52"
  obtain m where m: "nearest_double a b = of_int m * pow2 ?s"
    and near: "\<bar>of_int m - ?x / pow2 ?s\<bar> \<le> 1 / 2"
    using nearest_double_mantissa [OF assms(1,2)] by blast
  have lo: "pow2 ?e \<le> ?x" and hi: "?x < pow2 (?e + 1)"
    using exponent_bounds [OF assms(1,2)] by simp_all
  have spos: "0 < pow2 ?s" by (rule pow2_pos)
  consider "0 \<le> ?e" | "?e \<le> - 2" | "?e = - 1" by linarith
  then show ?thesis
  proof cases
    case 1
    then have s: "?s = ?e - 52" by simp
    have "pow2 52 = pow2 ?e / pow2 ?s"
      using spos by (simp add: s field_simps flip: pow2_add)
    also have "\<dots> \<le> ?x / pow2 ?s"
      using lo by (rule divide_right_mono) (rule less_imp_le [OF spos])
    finally have "pow2 52 - 1 / 2 \<le> of_int m" using near by linarith
    moreover have "pow2 52 = of_int (2 ^ 52)" by (simp add: pow2_def)
    ultimately have "(of_int (2 ^ 52 - 1) :: rat) < of_int m" by simp
    then have "2 ^ 52 - 1 < m" by (simp only: of_int_less_iff)
    then have "2 ^ 52 \<le> m" by simp
    then have "(of_int (2 ^ 52) :: rat) \<le> of_int m" by (simp only: of_int_le_iff)
    then have "pow2 52 \<le> of_int m" by (simp add: pow2_def)
    then have "pow2 52 * pow2 ?s \<le> of_int m * pow2 ?s"
      by (rule mult_right_mono) (rule less_imp_le [OF spos])
    moreover have "pow2 52 * pow2 ?s = pow2 ?e" by (simp add: s flip: pow2_add)
    moreover have "pow2 0 \<le> pow2 ?e" using 1 by (rule pow2_mono)
    moreover have "threshold \<le> pow2 0" by (simp add: threshold_def pow2_def)
    ultimately show ?thesis using m by simp
  next
    case 2
    let ?e' = "max ?e (- 1022)"
    from 2 have e': "?e' \<le> - 2" by simp
    have "?x < pow2 (?e' + 1)"
      using hi pow2_mono [of "?e + 1" "?e' + 1"] by simp
    then have "?x / pow2 ?s < pow2 (?e' + 1) / pow2 ?s"
      by (rule divide_strict_right_mono) (rule spos)
    also have "\<dots> = pow2 53"
      using spos by (simp add: field_simps flip: pow2_add)
    finally have "of_int m < pow2 53 + 1 / 2" using near by linarith
    moreover have "pow2 53 = of_int (2 ^ 53)" by (simp add: pow2_def)
    ultimately have "(of_int m :: rat) < of_int (2 ^ 53 + 1)" by simp
    then have "m < 2 ^ 53 + 1" by (simp only: of_int_less_iff)
    then have "m \<le> 2 ^ 53" by simp
    then have "(of_int m :: rat) \<le> of_int (2 ^ 53)" by (simp only: of_int_le_iff)
    then have "of_int m \<le> pow2 53" by (simp add: pow2_def)
    then have "of_int m * pow2 ?s \<le> pow2 53 * pow2 ?s"
      by (rule mult_right_mono) (rule less_imp_le [OF spos])
    moreover have "pow2 53 * pow2 ?s = pow2 (?e' + 1)"
      by (simp add: add.commute flip: pow2_add)
    moreover have "pow2 (?e' + 1) \<le> pow2 (- 1)" using e' by (intro pow2_mono) simp
    moreover have "pow2 (- 1) < 4 / 5" by (simp add: pow2_def)
    ultimately have "nearest_double a b < 4 / 5" using m by simp
    with assms(3) show ?thesis by simp
  next
    case 3
    then have s: "?s = - 53" by simp
    have p: "pow2 (- 53) = 1 / 9007199254740992" by (simp add: pow2_def)
    from assms(3) have "4 / 5 \<le> of_int m / (9007199254740992 :: rat)"
      by (simp add: m s p)
    then have "(of_int (36028797018963968) :: rat) \<le> of_int (5 * m)" by simp
    then have "36028797018963968 \<le> 5 * m" by (simp only: of_int_le_iff)
    then have "7205759403792794 \<le> m" by simp
    then have "(of_int 7205759403792794 :: rat) \<le> of_int m" by (simp only: of_int_le_iff)
    then show ?thesis by (simp add: m s p threshold_def)
  qed
qed

lemma threshold_above: "4 / 5 < threshold"
  by (simp add: threshold_def)

lemma true_div_literal: "true_div 4 5 = Inr threshold"
  by (simp add: true_div_def nearest_double_def exponent_def pow2_def round_half_even_def
      threshold_def compute_bitlen Let_def)

lemma true_div_values:
  "true_div 450 500 = Inr double_0_9"
  "true_div 9 10 = Inr double_0_9"
  "true_div 250 500 = Inr (1 / 2)"
  "true_div 500 500 = Inr 1"
  "true_div 0 500 = Inr 0"
  "true_div 0 100 = Inr 0"
  by (simp_all add: true_div_def nearest_double_def exponent_def pow2_def round_half_even_def
      double_0_9_def compute_bitlen Let_def)

text \<open>
  A quotient just below \<open>4 / 5\<close> that rounds up to the double written \<^verbatim>\<open>0.8\<close>.
\<close>

lemma true_div_rounds_up:
  "true_div 7999999999999999999 10000000000000000000 = Inr threshold"
  by (simp add: true_div_def nearest_double_def exponent_def pow2_def round_half_even_def
      threshold_def compute_bitlen Let_def)

lemma true_div_overflow: "true_div too_many 1 = Inl OverflowError"
  by (simp add: too_many_def true_div_def nearest_double_def exponent_def pow2_def
      round_half_even_def compute_bitlen Let_def)

lemma true_div_small:
  assumes "0 < b" and "\<bar>a\<bar> \<le> 4096"
  shows "\<exists>d. true_div a b = Inr d"
proof (cases "a = 0")
  case True
  with assms(1) show ?thesis by (simp add: true_div_def)
next
  case False
  then have "0 < \<bar>a\<bar>" by simp
  moreover from assms(1) have "0 < \<bar>b\<bar>" by simp
  moreover from assms have "\<bar>a\<bar> \<le> 4096 * \<bar>b\<bar>" by simp
  ultimately have "nearest_double \<bar>a\<bar> \<bar>b\<bar> < pow2 1024"
    by (rule nearest_double_small)
  with False assms(1) show ?thesis by (simp add: true_div_def Let_def)
qed

lemma true_div_errors:
  assumes "true_div a b = Inl e"
  shows "(b = 0 \<and> e = ZeroDivisionError) \<or> (b \<noteq> 0 \<and> e = OverflowError)"
  using assms by (auto simp add: true_div_def Let_def split: if_splits)

lemma true_div_threshold:
  assumes "true_div a b = Inr d"
  shows "4 / 5 \<le> d \<longleftrightarrow> threshold \<le> d"
proof (cases "a = 0 \<or> b = 0")
  case True
  with assms have "d = 0" by (auto simp add: true_div_def split: if_splits)
  then show ?thesis by (simp add: threshold_def)
next
  case False
  then have pos: "0 < \<bar>a\<bar>" "0 < \<bar>b\<bar>" by simp_all
  let ?n = "nearest_double \<bar>a\<bar> \<bar>b\<bar>"
  have nonneg: "0 \<le> ?n" by (rule nearest_double_nonneg [OF pos])
  from assms False have d: "d = (if (a < 0) \<noteq> (b < 0) then - ?n else ?n)"
    by (auto simp add: true_div_def Let_def split: if_splits)
  show ?thesis
  proof
    assume ge: "4 / 5 \<le> d"
    with d nonneg have "d = ?n" by (auto split: if_splits)
    with ge nearest_double_threshold [OF pos] show "threshold \<le> d" by simp
  next
    assume "threshold \<le> d"
    with threshold_above show "4 / 5 \<le> d" by simp
  qed
qed

subsection \<open>check\_server\<close>

lemma queries_never_raise:
  "\<exists>p. ping e host port = Inr p"
  "\<exists>n. get_player_count e host port = Inr n"
  "\<exists>i. get_server_info e host port = Inr i"
  by (simp_all add: ping_def get_player_count_def get_server_info_def send_query_def
      split: net_outcome.splits)

lemma split_on_length:
  "1 \<le> length (split_on sep cs) \<and> length (split_on sep cs) \<le> Suc (length cs)"
  by (induction cs) (auto split: list.splits)

lemma get_player_count_range:
  assumes "get_player_count e host port = Inr (Some n)"
  shows "0 \<le> n \<and> n \<le> 4096"
proof -
  from assms obtain r where r: "net e host port ''players'' = Reply r"
    and n: "n = int (length (split_on (CHR 0x0A) (take 4096 r))) - 1"
    by (auto simp add: get_player_count_def send_query_def
        split: net_outcome.splits if_splits)
  have "length (take 4096 r) \<le> 4096" by simp
  with split_on_length [of "CHR 0x0A" "take 4096 r"] n show ?thesis by linarith
qed

lemma check_server_shape:
  "\<exists>st n. check_server e c = Inr st \<and> st_online st = Some True \<and> st_error st = None \<and>
          st_player_count st = Some n \<and> 0 \<le> n \<and> n \<le> 4096"
proof -
  obtain p k i where p: "ping e (cfg_host c) (cfg_port c) = Inr p"
    and k: "get_player_count e (cfg_host c) (cfg_port c) = Inr k"
    and i: "get_server_info e (cfg_host c) (cfg_port c) = Inr i"
    using queries_never_raise by metis
  have "0 \<le> (case k of None \<Rightarrow> 0 | Some n \<Rightarrow> n) \<and> (case k of None \<Rightarrow> 0 | Some n \<Rightarrow> n) \<le> 4096"
    using get_player_count_range [of e "cfg_host c" "cfg_port c"] k
    by (cases k) simp_all
  with p k i show ?thesis
    by (simp add: check_server_def check_server_try_def Let_def)
qed

lemma check_server_always_online:
  "\<exists>st. check_server e c = Inr st \<and> st_online st = Some True \<and> st_error st = None"
  using check_server_shape [of e c] by blast

lemma check_server_dead: "check_server dead_env main_server = Inr unanswered_snapshot"
  by (simp add: check_server_def check_server_try_def ping_def get_player_count_def
      get_server_info_def send_query_def dead_env_def main_server_def
      unanswered_snapshot_def online_snapshot_def)

text \<open>
  Claim C1. If any of the three sub-queries fails, \<^verbatim>\<open>check_server\<close> should return a
  snapshot with \<open>online = False\<close> and the error recorded. The code does not: each of
  \<^verbatim>\<open>ping\<close>, \<^verbatim>\<open>get_player_count\<close> and \<^verbatim>\<open>get_server_info\<close> catches the
  \<^verbatim>\<open>SAMPQueryException\<close> itself and returns \<^verbatim>\<open>None\<close>, so the handler in
  \<^verbatim>\<open>check_server\<close> is never entered. With all three queries timing out the
  snapshot is online, with no ping, zero players and no error.
\<close>

theorem check_server_all_queries_fail:
  "ping dead_env ''127.0.0.1'' 7777 = Inr None \<and>
   get_player_count dead_env ''127.0.0.1'' 7777 = Inr None \<and>
   get_server_info dead_env ''127.0.0.1'' 7777 = Inr None \<and>
   check_server dead_env main_server =
     Inr \<lparr>st_name = ''Main Server'', st_host = ''127.0.0.1'', st_port = 7777,
           st_online = Some True, st_ping = None, st_player_count = Some 0,
           st_max_players = Some 500, st_error = None,
           st_timestamp = ''2024-01-01T00:00:00''\<rparr>"
  by (simp add: check_server_def check_server_try_def ping_def get_player_count_def
      get_server_info_def send_query_def dead_env_def main_server_def)

subsection \<open>The load of a status\<close>

lemma load_unfold:
  "load s = (if get_or (st_max_players s) 100 > 0
             then true_div (get_or (st_player_count s) 0) (get_or (st_max_players s) 100)
             else Inr 0)"
  by (simp add: load_def Let_def)

lemma load_threshold:
  assumes "load s = Inr l"
  shows "4 / 5 \<le> l \<longleftrightarrow> threshold \<le> l"
proof (cases "get_or (st_max_players s) 100 > 0")
  case True
  with assms have "true_div (get_or (st_player_count s) 0) (get_or (st_max_players s) 100) = Inr l"
    by (simp add: load_unfold)
  then show ?thesis by (rule true_div_threshold)
next
  case False
  with assms have "l = 0" by (simp add: load_unfold)
  then show ?thesis by (simp add: threshold_def)
qed

lemma load_errors:
  assumes "load s = Inl e"
  shows "e = OverflowError"
proof -
  from assms have pos: "get_or (st_max_players s) 100 > 0"
    and "true_div (get_or (st_player_count s) 0) (get_or (st_max_players s) 100) = Inl e"
    by (simp_all add: load_unfold split: if_splits)
  with true_div_errors show ?thesis by fastforce
qed

lemma load_bounded:
  assumes "\<bar>get_or (st_player_count s) 0\<bar> \<le> 4096"
  shows "\<exists>l. load s = Inr l"
proof (cases "get_or (st_max_players s) 100 > 0")
  case True
  from true_div_small [OF True assms] True show ?thesis by (simp add: load_unfold)
next
  case False
  then show ?thesis by (simp add: load_unfold)
qed

lemma load_no_slots: "get_or (st_max_players s) 100 \<le> 0 \<Longrightarrow> load s = Inr 0"
  by (simp add: load_unfold)

lemma load_no_count: "get_or (st_player_count s) 0 = 0 \<Longrightarrow> load s = Inr 0"
  by (simp add: load_unfold true_div_def)

lemma load_values:
  "load (online_snapshot 450) = Inr double_0_9"
  "load (online_snapshot 250) = Inr (1 / 2)"
  "load (online_snapshot 500) = Inr 1"
  "load offline_with_count = Inr double_0_9"
  "load offline_full = Inr 1"
  "load offline_snapshot = Inr 0"
  "load unanswered_snapshot = Inr 0"
  "load zero_slots = Inr 0"
  "load crowded = Inl OverflowError"
  by (simp_all add: load_unfold get_or_def online_snapshot_def offline_with_count_def
      offline_full_def offline_snapshot_def unanswered_snapshot_def zero_slots_def crowded_def
      true_div_values true_div_overflow)

lemma double_0_9_above: "4 / 5 \<le> double_0_9"
  by (simp add: double_0_9_def)

subsection \<open>The transition handler\<close>

lemma handle_new_online:
  assumes "get_or (st_online new) False" and "load new = Inr l" and "load old = Inr ol"
  shows "handle_server_status_change name new (Some old) =
           ((if \<not> get_or (st_online old) False then [WentOnline name] else []) @
            (if 4 / 5 \<le> l \<and> ol < 4 / 5
             then [HighLoad name (get_or (st_player_count new) 0)
                     (get_or (st_max_players new) 100) l]
             else []), None)"
proof -
  from assms(1) have on: "get_or (st_online new) True"
    by (cases "st_online new") (simp_all add: get_or_def)
  have l: "threshold \<le> l \<longleftrightarrow> 4 / 5 \<le> l"
    using load_threshold [OF assms(2)] by simp
  have "threshold \<le> ol \<longleftrightarrow> 4 / 5 \<le> ol"
    using load_threshold [OF assms(3)] by simp
  then have ol: "ol < threshold \<longleftrightarrow> ol < 4 / 5" by (simp add: not_le [symmetric])
  show ?thesis
    using assms on by (simp add: handle_server_status_change_def Let_def l ol)
qed

lemma handle_new_offline:
  assumes "\<not> get_or (st_online new) False"
  shows "handle_server_status_change name new (Some old) =
           ((if get_or (st_online old) True
             then [WentOffline name (st_host new) (st_port new)]
             else if \<not> get_or (st_online old) False \<and> get_or (st_online new) True
             then [WentOnline name] else []), None)"
  using assms by (simp add: handle_server_status_change_def Let_def)

lemma handle_raises:
  assumes "get_or (st_online new) False"
    and "load new = Inl e \<or> (\<exists>l. load new = Inr l \<and> load old = Inl e)"
  shows "handle_server_status_change name new (Some old) =
           ((if \<not> get_or (st_online old) False then [WentOnline name] else []), Some e)"
proof -
  from assms(1) have on: "get_or (st_online new) True"
    by (cases "st_online new") (simp_all add: get_or_def)
  show ?thesis
    using assms on by (auto simp add: handle_server_status_change_def Let_def)
qed

lemma handle_exception:
  assumes "snd (handle_server_status_change name new old) = Some e"
  shows "e = OverflowError"
proof (cases old)
  case None
  with assms show ?thesis by (simp add: handle_server_status_change_def)
next
  case (Some old')
  with assms obtain s where "load s = Inl e"
    by (auto simp add: handle_server_status_change_def Let_def split: if_splits sum.splits)
  then show ?thesis by (rule load_errors)
qed

lemma handle_bounded:
  assumes "\<bar>get_or (st_player_count new) 0\<bar> \<le> 4096"
    and "\<bar>get_or (st_player_count old) 0\<bar> \<le> 4096"
  shows "snd (handle_server_status_change name new (Some old)) = None"
proof -
  obtain l ol where "load new = Inr l" "load old = Inr ol"
    using load_bounded [OF assms(1)] load_bounded [OF assms(2)] by blast
  then show ?thesis
    by (simp add: handle_server_status_change_def Let_def)
qed

text \<open>
  Claim C6. When there is no old status (the server has no entry from a previous cycle),
  the handler sends no alert of any kind and returns normally, whatever the new status
  is.
\<close>

theorem no_old_status_no_alerts:
  "handle_server_status_change name new None = ([], None)"
  by (simp add: handle_server_status_change_def)

text \<open>
  Claim C4. When the old status is online and the new status is offline, the handler
  sends exactly one alert, the offline alert, and returns normally, whatever player
  counts and maxima the two dictionaries hold.
\<close>

theorem went_offline_exactly_once:
  assumes "st_online old = Some True" and "st_online new = Some False"
  shows "handle_server_status_change name new (Some old) =
           ([WentOffline name (st_host new) (st_port new)], None)"
  using assms by (simp add: handle_new_offline get_or_def)

theorem went_offline_exactly_once_witness:
  "st_online (online_snapshot 450) = Some True \<and> st_online offline_snapshot = Some False \<and>
   handle_server_status_change ''Main Server'' offline_snapshot (Some (online_snapshot 450)) =
     ([WentOffline ''Main Server'' ''127.0.0.1'' 7777], None)"
  using went_offline_exactly_once [of "online_snapshot 450" offline_snapshot "''Main Server''"]
  by (simp add: online_snapshot_def offline_snapshot_def)

text \<open>
  Claim C3 as stated fails in two ways. A new status whose quotient is beyond the range
  of a double is online with a load above any threshold, yet the division raises
  \<^verbatim>\<open>OverflowError\<close> and no high-load alert is sent. And an old status that says
  offline does not count as load \<open>0\<close> when it carries a player count: the old load
  is read from the dictionary whatever its \<^verbatim>\<open>online\<close> flag, so with a full old and
  a full new status only the online alert is sent.
\<close>

theorem high_load_rising_edge_counterexample:
  "st_online crowded = Some True \<and> st_player_count crowded = Some too_many \<and>
   st_max_players crowded = Some 1 \<and> 1 \<le> too_many \<and>
   load (online_snapshot 250) = Inr (1 / 2) \<and>
   handle_server_status_change ''Main Server'' crowded (Some (online_snapshot 250)) =
     ([], Some OverflowError) \<and>
   st_online offline_full = Some False \<and> st_online (online_snapshot 500) = Some True \<and>
   load (online_snapshot 500) = Inr 1 \<and>
   handle_server_status_change ''Main Server'' (online_snapshot 500) (Some offline_full) =
     ([WentOnline ''Main Server''], None)"
proof -
  have on: "get_or (st_online crowded) False" "get_or (st_online (online_snapshot 250)) False"
    "get_or (st_online (online_snapshot 500)) False" "\<not> get_or (st_online offline_full) False"
    by (simp_all add: get_or_def crowded_def online_snapshot_def offline_full_def)
  have "handle_server_status_change ''Main Server'' crowded (Some (online_snapshot 250)) =
          ([], Some OverflowError)"
    using handle_raises [OF on(1), of OverflowError "online_snapshot 250" "''Main Server''"]
      on(2) load_values(9) by simp
  moreover have "handle_server_status_change ''Main Server'' (online_snapshot 500)
      (Some offline_full) = ([WentOnline ''Main Server''], None)"
    using handle_new_online [OF on(3) load_values(3) load_values(5), of "''Main Server''"] on(4)
    by simp
  moreover have "st_online crowded = Some True" "st_player_count crowded = Some too_many"
    "st_max_players crowded = Some 1" "st_online offline_full = Some False"
    "st_online (online_snapshot 500) = Some True"
    by (simp_all add: crowded_def online_snapshot_def offline_full_def)
  moreover have "1 \<le> too_many" by (simp add: too_many_def)
  ultimately show ?thesis
    using load_values(2) load_values(3) by (intro conjI)
qed

text \<open>
  Claim C3, as the code has it. The high-load alert fires on the rising edge only. Let
  the new status be online and let both loads be defined, each read from its own
  dictionary (the player count over \<^verbatim>\<open>max_players\<close>, with \<open>0\<close> and \<open>100\<close>
  for missing keys, whatever the \<^verbatim>\<open>online\<close> flag of the old status says). Then the
  handler returns normally, and a high-load alert is among the alerts it sent exactly
  when the new load is at least \<open>4 / 5\<close> and the old load is below \<open>4 / 5\<close>. The
  only alerts sent are the online alert and the high-load alert; when the new load is
  below \<open>4 / 5\<close> and the old status was online, nothing is sent at all, so a load
  that falls back below the threshold is silent.
\<close>

theorem high_load_rising_edge_only:
  assumes "st_online new = Some True" and "load new = Inr l" and "load old = Inr ol"
  shows "\<exists>evs.
           handle_server_status_change name new (Some old) = (evs, None) \<and>
           ((\<exists>a \<in> set evs. is_HighLoad a) \<longleftrightarrow> (4 / 5 \<le> l \<and> ol < 4 / 5)) \<and>
           (\<forall>a \<in> set evs. is_WentOnline a \<or> is_HighLoad a) \<and>
           (l < 4 / 5 \<and> st_online old = Some True \<longrightarrow> evs = [])"
proof -
  from assms(1) have on: "get_or (st_online new) False" by (simp add: get_or_def)
  note h = handle_new_online [OF on assms(2,3), of name]
  show ?thesis
    unfolding h by (auto simp add: get_or_def split: if_splits)
qed

theorem high_load_rising_edge_only_witness:
  "st_online (online_snapshot 250) = Some True \<and>
   load (online_snapshot 250) = Inr (1 / 2) \<and> load (online_snapshot 450) = Inr double_0_9 \<and>
   handle_server_status_change ''Main Server'' (online_snapshot 250)
     (Some (online_snapshot 450)) = ([], None) \<and>
   handle_server_status_change ''Main Server'' (online_snapshot 450)
     (Some (online_snapshot 250)) = ([HighLoad ''Main Server'' 450 500 double_0_9], None)"
proof -
  have on: "st_online (online_snapshot 250) = Some True"
    "st_online (online_snapshot 450) = Some True"
    by (simp_all add: online_snapshot_def)
  then have on': "get_or (st_online (online_snapshot 250)) False"
    "get_or (st_online (online_snapshot 450)) False"
    by (simp_all add: get_or_def)
  have up: "handle_server_status_change ''Main Server'' (online_snapshot 450)
      (Some (online_snapshot 250)) = ([HighLoad ''Main Server'' 450 500 double_0_9], None)"
    using handle_new_online [OF on'(2) load_values(1) load_values(2), of "''Main Server''"]
      on'(1) double_0_9_above
    by (simp add: get_or_def online_snapshot_def)
  have "4 / 5 \<le> (1 / 2 :: rat) \<longleftrightarrow> False" by simp
  with high_load_rising_edge_only [OF on(1) load_values(2) load_values(1), of "''Main Server''"]
  have "handle_server_status_change ''Main Server'' (online_snapshot 250)
      (Some (online_snapshot 450)) = ([], None)"
    using on(2) by auto
  with on(1) up load_values(2) load_values(1) show ?thesis by (intro conjI)
qed

text \<open>
  Claim C5 as stated fails: an old status that says offline but carries a player count
  of 450 out of 500 has an old load above the threshold, since the old load is read
  from the dictionary without a look at the \<^verbatim>\<open>online\<close> flag. With a new status
  online at the same load, only the online alert is sent.
\<close>

theorem reconnect_at_high_load_counterexample:
  "st_online offline_with_count = Some False \<and> st_online (online_snapshot 450) = Some True \<and>
   load (online_snapshot 450) = Inr double_0_9 \<and> 4 / 5 \<le> double_0_9 \<and>
   handle_server_status_change ''Main Server'' (online_snapshot 450) (Some offline_with_count) =
     ([WentOnline ''Main Server''], None)"
proof -
  have on: "get_or (st_online (online_snapshot 450)) False"
    "\<not> get_or (st_online offline_with_count) False"
    by (simp_all add: get_or_def online_snapshot_def offline_with_count_def)
  have "handle_server_status_change ''Main Server'' (online_snapshot 450)
      (Some offline_with_count) = ([WentOnline ''Main Server''], None)"
    using handle_new_online [OF on(1) load_values(1) load_values(4), of "''Main Server''"]
      on(2) double_0_9_above
    by simp
  moreover have "st_online offline_with_count = Some False"
    "st_online (online_snapshot 450) = Some True"
    by (simp_all add: online_snapshot_def offline_with_count_def)
  ultimately show ?thesis
    using load_values(1) double_0_9_above by (intro conjI)
qed

text \<open>
  Claim C5, as the code has it. The online alert and the high-load alert are sent in
  the same call: when the old status is offline and its load, as read from its
  dictionary, is below \<open>4 / 5\<close>, and the new status is online at a load of at least
  \<open>4 / 5\<close>, the handler sends the online alert followed by the high-load alert and
  returns normally. The load of a status without a \<^verbatim>\<open>player_count\<close> key, such as
  the offline status that \<^verbatim>\<open>check_server\<close> builds, is \<open>0\<close>.
\<close>

theorem reconnect_at_high_load:
  assumes "st_online old = Some False" and "load old = Inr ol" and "ol < 4 / 5"
    and "st_online new = Some True" and "load new = Inr l" and "4 / 5 \<le> l"
  shows "handle_server_status_change name new (Some old) =
           ([WentOnline name,
             HighLoad name (get_or (st_player_count new) 0)
               (get_or (st_max_players new) 100) l], None) \<and>
         (st_player_count s = None \<longrightarrow> load s = Inr 0)"
proof -
  from assms(4) have on: "get_or (st_online new) False"
    by (simp add: get_or_def)
  have "handle_server_status_change name new (Some old) =
           ([WentOnline name,
             HighLoad name (get_or (st_player_count new) 0)
               (get_or (st_max_players new) 100) l], None)"
    using handle_new_online [OF on assms(5) assms(2), of name] assms(1,3,6)
    by (simp add: get_or_def)
  moreover have "st_player_count s = None \<longrightarrow> load s = Inr 0"
    by (simp add: load_no_count get_or_def)
  ultimately show ?thesis by simp
qed

theorem reconnect_at_high_load_witness:
  "st_online offline_snapshot = Some False \<and> load offline_snapshot = Inr 0 \<and>
   (0 :: rat) < 4 / 5 \<and> st_player_count offline_snapshot = None \<and>
   st_online (online_snapshot 450) = Some True \<and>
   load (online_snapshot 450) = Inr double_0_9 \<and> 4 / 5 \<le> double_0_9 \<and>
   handle_server_status_change ''Main Server'' (online_snapshot 450) (Some offline_snapshot) =
     ([WentOnline ''Main Server'', HighLoad ''Main Server'' 450 500 double_0_9], None)"
proof -
  have off: "st_online offline_snapshot = Some False" "st_player_count offline_snapshot = None"
    by (simp_all add: offline_snapshot_def)
  have on: "st_online (online_snapshot 450) = Some True"
    by (simp add: online_snapshot_def)
  have lt: "(0 :: rat) < 4 / 5" by simp
  have "handle_server_status_change ''Main Server'' (online_snapshot 450)
      (Some offline_snapshot) =
      ([WentOnline ''Main Server'', HighLoad ''Main Server'' 450 500 double_0_9], None)"
    using reconnect_at_high_load [OF off(1) load_values(6) lt on load_values(1) double_0_9_above,
        of "''Main Server''" offline_snapshot]
    by (simp add: get_or_def online_snapshot_def)
  with off on lt load_values(6) load_values(1) double_0_9_above show ?thesis
    by (intro conjI)
qed

text \<open>
  Claim C7 as stated fails: the division can raise. A status whose player count over
  its \<^verbatim>\<open>max_players\<close> is beyond the range of a double makes the quotient raise
  \<^verbatim>\<open>OverflowError\<close>, as the new status and as the old status alike, and the
  exception leaves the handler.
\<close>

theorem load_division_counterexample:
  "st_player_count crowded = Some too_many \<and> st_max_players crowded = Some 1 \<and>
   load crowded = Inl OverflowError \<and>
   handle_server_status_change ''Main Server'' crowded (Some zero_slots) =
     ([], Some OverflowError) \<and>
   handle_server_status_change ''Main Server'' (online_snapshot 450) (Some crowded) =
     ([], Some OverflowError)"
proof -
  have on: "get_or (st_online crowded) False" "get_or (st_online zero_slots) False"
    "get_or (st_online (online_snapshot 450)) False"
    by (simp_all add: get_or_def crowded_def online_snapshot_def zero_slots_def)
  have "handle_server_status_change ''Main Server'' crowded (Some zero_slots) =
          ([], Some OverflowError)"
    using handle_raises [OF on(1), of OverflowError zero_slots "''Main Server''"]
      on(2) load_values(9) by simp
  moreover have "handle_server_status_change ''Main Server'' (online_snapshot 450)
      (Some crowded) = ([], Some OverflowError)"
    using handle_raises [OF on(3), of OverflowError crowded "''Main Server''"]
      on(1) load_values(1) load_values(9) by simp
  moreover have "st_player_count crowded = Some too_many" "st_max_players crowded = Some 1"
    by (simp_all add: crowded_def online_snapshot_def)
  ultimately show ?thesis
    using load_values(9) by (intro conjI)
qed

text \<open>
  Claim C7, as the code has it. The handler never raises \<^verbatim>\<open>ZeroDivisionError\<close>, and
  neither does the load expression, which is the same for the new and the old status:
  its value is \<open>0\<close> when \<^verbatim>\<open>max_players\<close> is \<open>0\<close>. The load is defined whenever the
  player count is at most 4096 in absolute value, the size of one datagram, and for two
  such statuses the handler returns normally.
\<close>

theorem load_never_divides_by_zero:
  "snd (handle_server_status_change name new old) \<noteq> Some ZeroDivisionError \<and>
   load s \<noteq> Inl ZeroDivisionError \<and>
   (st_max_players s = Some 0 \<longrightarrow> load s = Inr 0) \<and>
   (\<bar>get_or (st_player_count s) 0\<bar> \<le> 4096 \<longrightarrow> (\<exists>l. load s = Inr l)) \<and>
   (\<bar>get_or (st_player_count new) 0\<bar> \<le> 4096 \<and> \<bar>get_or (st_player_count old') 0\<bar> \<le> 4096 \<longrightarrow>
      snd (handle_server_status_change name new (Some old')) = None)"
proof -
  have "snd (handle_server_status_change name new old) \<noteq> Some ZeroDivisionError"
    using handle_exception [of name new old ZeroDivisionError] by auto
  moreover have "load s \<noteq> Inl ZeroDivisionError"
    using load_errors [of s ZeroDivisionError] by auto
  moreover have "st_max_players s = Some 0 \<longrightarrow> load s = Inr 0"
    by (simp add: load_no_slots get_or_def)
  ultimately show ?thesis
    using load_bounded [of s] handle_bounded [of new old' name] by blast
qed

theorem load_never_divides_by_zero_witness:
  "st_max_players zero_slots = Some 0 \<and> load zero_slots = Inr 0 \<and>
   \<bar>get_or (st_player_count zero_slots) 0\<bar> \<le> 4096 \<and>
   \<bar>get_or (st_player_count (online_snapshot 450)) 0\<bar> \<le> 4096 \<and>
   handle_server_status_change ''Main Server'' zero_slots (Some zero_slots) = ([], None) \<and>
   snd (handle_server_status_change ''Main Server'' (online_snapshot 450) (Some zero_slots)) =
     None"
proof -
  have z: "st_max_players zero_slots = Some 0" "\<bar>get_or (st_player_count zero_slots) 0\<bar> \<le> 4096"
    "\<bar>get_or (st_player_count (online_snapshot 450)) 0\<bar> \<le> 4096"
    "get_or (st_online zero_slots) False"
    by (simp_all add: zero_slots_def online_snapshot_def get_or_def)
  have "handle_server_status_change ''Main Server'' zero_slots (Some zero_slots) = ([], None)"
    using handle_new_online [OF z(4) load_values(8) load_values(8), of "''Main Server''"] z(4)
    by simp
  moreover have "snd (handle_server_status_change ''Main Server'' (online_snapshot 450)
      (Some zero_slots)) = None"
    using load_never_divides_by_zero
        [of "''Main Server''" "online_snapshot 450" "Some zero_slots" zero_slots zero_slots] z
    by blast
  ultimately show ?thesis
    using z(1,2,3) load_values(8) by (intro conjI)
qed

subsection \<open>The configuration fields that are never read\<close>

lemma process_server_result:
  assumes "check_server (world (probes m)) c = Inr new"
    and "handle_server_status_change (cfg_name c) new (server_states m (cfg_name c)) =
           (alerts, None)"
  shows "process_server world c m =
           (m\<lparr>server_states := (server_states m)(cfg_name c \<mapsto> new),
              sent := sent m @ alerts, probes := Suc (probes m)\<rparr>, None)"
  using assms by (simp add: process_server_def Let_def)

lemma check_server_threshold:
  "check_server e (c\<lparr>high_load_threshold := t\<rparr>) = check_server e c"
  by (simp add: check_server_def check_server_try_def Let_def split: sum.splits exn.splits)

lemma check_server_toggles:
  "check_server e (c\<lparr>alert_on_offline := a, alert_on_high_load := b\<rparr>) = check_server e c"
  by (simp add: check_server_def check_server_try_def Let_def split: sum.splits exn.splits)

lemma process_server_toggles:
  "process_server world (c\<lparr>alert_on_offline := a, alert_on_high_load := b\<rparr>) m =
   process_server world c m"
  by (simp add: process_server_def check_server_toggles Let_def)

text \<open>
  Claim C2. The comparison uses the fixed value \<open>4 / 5\<close> whatever the server's
  \<^verbatim>\<open>high_load_threshold\<close> is. Replacing the configured threshold by any \<open>t\<close>
  leaves one pass of the loop body unchanged; and for a server with an old status of
  load \<open>ol\<close>, the pass with threshold \<open>t\<close> probes a status of some load \<open>l\<close> and
  sends a high-load alert exactly when \<open>4 / 5 \<le> l\<close> and \<open>ol < 4 / 5\<close>.
\<close>

theorem configured_threshold_not_used:
  assumes "server_states m (cfg_name c) = Some old" and "load old = Inr ol"
  shows "process_server world (c\<lparr>high_load_threshold := t\<rparr>) m = process_server world c m \<and>
         (\<exists>new l alerts.
            check_server (world (probes m)) (c\<lparr>high_load_threshold := t\<rparr>) = Inr new \<and>
            load new = Inr l \<and>
            process_server world (c\<lparr>high_load_threshold := t\<rparr>) m =
              (m\<lparr>server_states := (server_states m)(cfg_name c \<mapsto> new),
                 sent := sent m @ alerts, probes := Suc (probes m)\<rparr>, None) \<and>
            ((\<exists>a \<in> set alerts. is_HighLoad a) \<longleftrightarrow> (4 / 5 \<le> l \<and> ol < 4 / 5)))"
proof -
  have same: "process_server world (c\<lparr>high_load_threshold := t\<rparr>) m = process_server world c m"
    by (simp add: process_server_def check_server_threshold Let_def)
  obtain new n where new: "check_server (world (probes m)) c = Inr new"
    and on: "st_online new = Some True"
    and n: "st_player_count new = Some n" "0 \<le> n" "n \<le> 4096"
    using check_server_shape [of "world (probes m)" c] by blast
  from n have "\<bar>get_or (st_player_count new) 0\<bar> \<le> 4096" by (simp add: get_or_def)
  then obtain l where l: "load new = Inr l" using load_bounded by blast
  from on have on': "get_or (st_online new) False" by (simp add: get_or_def)
  note h = handle_new_online [OF on' l assms(2), of "cfg_name c"]
  let ?alerts = "(if \<not> get_or (st_online old) False then [WentOnline (cfg_name c)] else []) @
                 (if 4 / 5 \<le> l \<and> ol < 4 / 5
                  then [HighLoad (cfg_name c) (get_or (st_player_count new) 0)
                          (get_or (st_max_players new) 100) l]
                  else [])"
  have run: "process_server world c m =
               (m\<lparr>server_states := (server_states m)(cfg_name c \<mapsto> new),
                  sent := sent m @ ?alerts, probes := Suc (probes m)\<rparr>, None)"
    using process_server_result [of world m c new ?alerts] new h assms(1) by simp
  have edge: "(\<exists>a \<in> set ?alerts. is_HighLoad a) \<longleftrightarrow> (4 / 5 \<le> l \<and> ol < 4 / 5)"
    by auto
  have "check_server (world (probes m)) (c\<lparr>high_load_threshold := t\<rparr>) = Inr new"
    using new by (simp add: check_server_threshold)
  with same l run edge show ?thesis
    by (intro conjI exI [of _ new] exI [of _ l] exI [of _ ?alerts]) simp_all
qed

theorem configured_threshold_not_used_witness:
  "server_states seen_monitor (cfg_name small_server) = Some (online_snapshot 250) \<and>
   load (online_snapshot 250) = Inr (1 / 2) \<and>
   get_player_count busy_env ''127.0.0.1'' 7777 = Inr (Some 9) \<and>
   process_server busy_world (small_server\<lparr>high_load_threshold := 1\<rparr>) seen_monitor =
     process_server busy_world small_server seen_monitor \<and>
   process_server busy_world small_server seen_monitor =
     (seen_monitor
        \<lparr>server_states := (server_states seen_monitor)
           (''Main Server'' \<mapsto>
              \<lparr>st_name = ''Main Server'', st_host = ''127.0.0.1'', st_port = 7777,
               st_online = Some True, st_ping = Some 20, st_player_count = Some 9,
               st_max_players = Some 10, st_error = None,
               st_timestamp = ''2024-01-01T00:02:00''\<rparr>),
         sent := [HighLoad ''Main Server'' 9 10 double_0_9],
         probes := 2\<rparr>, None)"
proof -
  let ?new = "\<lparr>st_name = ''Main Server'', st_host = ''127.0.0.1'', st_port = 7777,
               st_online = Some True, st_ping = Some 20, st_player_count = Some 9,
               st_max_players = Some 10, st_error = None,
               st_timestamp = ''2024-01-01T00:02:00''\<rparr>"
  have old: "server_states seen_monitor (cfg_name small_server) = Some (online_snapshot 250)"
    by (simp add: seen_monitor_def small_server_def)
  have pc: "get_player_count busy_env ''127.0.0.1'' 7777 = Inr (Some 9)"
    by (simp add: get_player_count_def send_query_def busy_env_def player_list_def)
  have new: "check_server (busy_world (probes seen_monitor)) small_server = Inr ?new"
  proof -
    have p: "ping busy_env ''127.0.0.1'' 7777 = Inr (Some 20)"
      by (simp add: ping_def send_query_def busy_env_def)
    have i: "\<exists>info. get_server_info busy_env ''127.0.0.1'' 7777 = Inr info"
      by (rule queries_never_raise)
    from p pc i show ?thesis
      by (auto simp add: check_server_def check_server_try_def small_server_def busy_world_def)
        (simp add: busy_env_def)
  qed
  have ln: "load ?new = Inr double_0_9"
    by (simp add: load_unfold get_or_def true_div_values)
  have on: "get_or (st_online ?new) False" "get_or (st_online (online_snapshot 250)) False"
    by (simp_all add: get_or_def online_snapshot_def)
  have h: "handle_server_status_change (cfg_name small_server) ?new
             (server_states seen_monitor (cfg_name small_server)) =
           ([HighLoad ''Main Server'' 9 10 double_0_9], None)"
    using handle_new_online [OF on(1) ln load_values(2), of "cfg_name small_server"]
      on(2) double_0_9_above old
    by (simp add: get_or_def small_server_def)
  have run: "process_server busy_world small_server seen_monitor =
     (seen_monitor
        \<lparr>server_states := (server_states seen_monitor)(''Main Server'' \<mapsto> ?new),
         sent := [HighLoad ''Main Server'' 9 10 double_0_9],
         probes := 2\<rparr>, None)"
    using process_server_result [of busy_world seen_monitor small_server ?new
        "[HighLoad ''Main Server'' 9 10 double_0_9]"] new h
    by (simp add: small_server_def seen_monitor_def)
  have "process_server busy_world (small_server\<lparr>high_load_threshold := 1\<rparr>) seen_monitor =
        process_server busy_world small_server seen_monitor"
    using configured_threshold_not_used [OF old load_values(2), of busy_world 1] by blast
  with old load_values(2) pc run show ?thesis by (intro conjI)
qed

text \<open>
  Claim C10. The per-server toggles \<^verbatim>\<open>alert_on_offline\<close> and
  \<^verbatim>\<open>alert_on_high_load\<close> are never read. The handler does not receive the
  configuration at all, and one pass over a server list gives the same monitor state,
  hence the same alerts sent, whatever values the two toggles are replaced by in each
  entry.
\<close>

theorem alert_toggles_never_consulted:
  "run_servers world
     (map (\<lambda>c. c\<lparr>alert_on_offline := a c, alert_on_high_load := b c\<rparr>) cs) m =
   run_servers world cs m"
proof (induction cs arbitrary: m)
  case Nil
  show ?case by simp
next
  case (Cons c cs)
  show ?case
    by (simp add: process_server_toggles Cons.IH split: prod.splits option.splits)
qed

subsection \<open>Starting and stopping the loop\<close>

lemma process_server_quiet:
  assumes "server_states m ''Main Server'' = None \<or>
           server_states m ''Main Server'' = Some unanswered_snapshot"
  shows "process_server quiet_world main_server m =
           (m\<lparr>server_states := (server_states m)(''Main Server'' \<mapsto> unanswered_snapshot),
              sent := sent m @ [], probes := Suc (probes m)\<rparr>, None)"
proof -
  have name: "cfg_name main_server = ''Main Server''" by (simp add: main_server_def)
  have new: "check_server (quiet_world (probes m)) main_server = Inr unanswered_snapshot"
    by (simp add: quiet_world_def check_server_dead)
  have on: "get_or (st_online unanswered_snapshot) False"
    by (simp add: get_or_def unanswered_snapshot_def online_snapshot_def)
  have "handle_server_status_change ''Main Server'' unanswered_snapshot
          (server_states m ''Main Server'') = ([], None)"
    using assms handle_new_online [OF on load_values(7) load_values(7), of "''Main Server''"] on
    by (auto simp add: handle_server_status_change_def)
  with process_server_result [of quiet_world m main_server unanswered_snapshot "[]"] new name
  show ?thesis by simp
qed

text \<open>
  Claim C8, as the code has it. \<^verbatim>\<open>start_monitoring\<close> does not look at the
  \<^verbatim>\<open>monitoring\<close> flag or at earlier threads: every call adds one more thread at the
  entry of \<^verbatim>\<open>monitor_loop\<close> and leaves the monitor object as it is.
\<close>

theorem start_monitoring_always_spawns:
  "threads (start_monitoring s) = threads s @ [Entry] \<and> mon (start_monitoring s) = mon s"
  by (simp add: start_monitoring_def)

text \<open>
  Claim C8 as stated, that a second start while the monitor is running is a no-op or
  an error, fails: after one start the flag is set and one thread is in the loop; a
  second start changes the process, its thread enters the loop as well, and when both
  threads take their turn each of them probes the server.
\<close>

theorem start_monitoring_twice_counterexample:
  "monitoring (mon running_system) \<and> threads running_system = [AtWhile] \<and>
   start_monitoring running_system \<noteq> running_system \<and>
   threads (thread_step quiet_world default_config 1 (start_monitoring running_system)) =
     [AtWhile, AtWhile] \<and>
   probes (mon (thread_step quiet_world default_config 1
                  (thread_step quiet_world default_config 0
                     (thread_step quiet_world default_config 1
                        (start_monitoring running_system))))) = 2"
proof -
  have run: "running_system = \<lparr>mon = fresh_monitor\<lparr>monitoring := True\<rparr>, threads = [AtWhile]\<rparr>"
    by (simp add: running_system_def thread_step_def start_monitoring_def idle_system_def)
  have two: "thread_step quiet_world default_config 1 (start_monitoring running_system) =
      \<lparr>mon = fresh_monitor\<lparr>monitoring := True\<rparr>, threads = [AtWhile, AtWhile]\<rparr>"
    by (simp add: run thread_step_def start_monitoring_def)
  have cycle: "\<exists>m'. run_servers quiet_world [main_server] m = (m', None) \<and>
      probes m' = Suc (probes m) \<and> monitoring m' = monitoring m \<and>
      server_states m' ''Main Server'' = Some unanswered_snapshot"
    if "server_states m ''Main Server'' = None \<or>
        server_states m ''Main Server'' = Some unanswered_snapshot" for m
    using process_server_quiet [OF that] by simp
  obtain m1 where m1: "run_servers quiet_world [main_server] (fresh_monitor\<lparr>monitoring := True\<rparr>) =
      (m1, None)" "probes m1 = 1" "monitoring m1"
      "server_states m1 ''Main Server'' = Some unanswered_snapshot"
    using cycle [of "fresh_monitor\<lparr>monitoring := True\<rparr>"] by (auto simp add: fresh_monitor_def)
  obtain m2 where m2: "run_servers quiet_world [main_server] m1 = (m2, None)" "probes m2 = 2"
    using cycle [of m1] m1 by auto
  have "thread_step quiet_world default_config 1
          (thread_step quiet_world default_config 0
             \<lparr>mon = fresh_monitor\<lparr>monitoring := True\<rparr>, threads = [AtWhile, AtWhile]\<rparr>) =
        \<lparr>mon = m2, threads = [Sleeping 60, Sleeping 60]\<rparr>"
    using m1 m2 by (simp add: thread_step_def default_config_def get_or_def fresh_monitor_def)
  with two m2 show ?thesis
    by (simp add: run start_monitoring_def fresh_monitor_def)
qed

text \<open>
  Claim C9. When \<^verbatim>\<open>stop_monitoring\<close> is called while the loop thread sleeps between
  two cycles, the thread wakes up, tests the flag and returns from \<^verbatim>\<open>monitor_loop\<close>
  normally: two steps after the stop, and at every later step, it has exited, and the
  monitor is the one the stop left, so no server was probed and no alert was sent.
\<close>

theorem stop_during_sleep_exits:
  "(loop_step world cfg ^^ Suc (Suc n)) (Sleeping d, stop_monitoring m) =
     (Exited, stop_monitoring m) \<and>
   probes (stop_monitoring m) = probes m \<and> sent (stop_monitoring m) = sent m \<and>
   server_states (stop_monitoring m) = server_states m"
proof -
  have "(loop_step world cfg ^^ Suc (Suc n)) (Sleeping d, stop_monitoring m) =
          (Exited, stop_monitoring m)"
  proof (induction n)
    case 0
    show ?case by (simp add: stop_monitoring_def)
  next
    case (Suc n)
    have "(loop_step world cfg ^^ Suc (Suc (Suc n))) (Sleeping d, stop_monitoring m) =
            loop_step world cfg
              ((loop_step world cfg ^^ Suc (Suc n)) (Sleeping d, stop_monitoring m))"
      by (simp only: funpow.simps o_apply)
    with Suc show ?case by simp
  qed
  then show ?thesis by (simp add: stop_monitoring_def)
qed

end
